theory Spec2Isabelle
  imports Complex_Main
begin

section \<open>Python values, exceptions and printed messages\<close>

text \<open>
  The model follows \<^verbatim>\<open>galsim/sensor.py\<close> (Python 2). Exceptions are values of type
  \<open>exn\<close>; a computation that may raise returns \<open>exn + 'a\<close> with \<open>Inl\<close> for the raised
  exception. Every \<^verbatim>\<open>print\<close> statement of the file is a constructor of \<open>msg\<close>, and a
  function that prints returns the list of messages it printed.

  Python floats are idealised as real numbers: rounding, overflow and the non-finite
  floats a file may spell are outside the model. The one non-finite value the code
  itself produces, the \<^verbatim>\<open>nan\<close> of \<^verbatim>\<open>np.sqrt\<close>, is part of it.
\<close>

datatype exn =
    IOError | ValueError | TypeError | IndexError | KeyError
  | ZeroDivisionError | UnboundLocalError

datatype msg =
    ConfigNotFound string
  | ConfigReadError string exn
  | VertexNotFound string
  | DiffusionOff

text \<open>The values a configuration table holds: what \<^verbatim>\<open>int()\<close>, \<^verbatim>\<open>float()\<close> return, a raw
  token, or a list of these.\<close>

datatype pyval = IntV int | FloatV real | StrV string | ListV "pyval list"

type_synonym config = "string \<rightharpoonup> pyval"

section \<open>ReadConfigFile\<close>

subsection \<open>\<^verbatim>\<open>line.strip().split()\<close>\<close>

definition is_space :: "char \<Rightarrow> bool" where
  "is_space c \<longleftrightarrow> c \<in> {CHR '' '', CHR 0x09, CHR 0x0A, CHR 0x0B, CHR 0x0C, CHR 0x0D}"

definition py_strip :: "string \<Rightarrow> string" where
  "py_strip s = rev (dropWhile is_space (rev (dropWhile is_space s)))"

text \<open>\<open>split_ws cur s\<close>: \<open>cur\<close> is the token being read; a run of whitespace ends it.\<close>

fun split_ws :: "string \<Rightarrow> string \<Rightarrow> string list" where
  "split_ws cur [] = (if cur = [] then [] else [cur])"
| "split_ws cur (c # cs) =
     (if is_space c then (if cur = [] then split_ws [] cs else cur # split_ws [] cs)
      else split_ws (cur @ [c]) cs)"

definition py_split :: "string \<Rightarrow> string list" where
  "py_split s = split_ws [] s"

subsection \<open>The token walk (lines 158--164)\<close>

text \<open>
  \<^verbatim>\<open>for counter,item in enumerate(ThisLine)\<close> reads \<^verbatim>\<open>ThisLine[counter]\<close> for
  \<open>counter = 0, 1, ...\<close> as long as \<open>counter\<close> is below the current length of the list,
  which the body changes while the loop runs: \<^verbatim>\<open>del ThisLine[counter:]\<close> keeps the first
  \<open>counter\<close> tokens, \<^verbatim>\<open>ThisLine.remove(item)\<close> deletes the first token equal to \<open>item\<close>.
  \<^verbatim>\<open>list(item)[0]\<close> raises IndexError on an empty token.
\<close>

function walk_tokens :: "nat \<Rightarrow> string list \<Rightarrow> exn + string list" where
  "walk_tokens counter ThisLine =
     (if counter < length ThisLine then
        (case ThisLine ! counter of
           [] \<Rightarrow> Inl IndexError
         | c # cs \<Rightarrow>
             if c = CHR ''#'' then walk_tokens (Suc counter) (take counter ThisLine)
             else if c # cs = ''='' then walk_tokens (Suc counter) (remove1 (c # cs) ThisLine)
             else walk_tokens (Suc counter) ThisLine)
      else Inr ThisLine)"
  by pat_completeness auto
termination
proof (relation "measure (\<lambda>(counter, ThisLine). length ThisLine - counter)")
  show "wf (measure (\<lambda>(counter, ThisLine). length ThisLine - counter))" by simp
next
  fix counter :: nat and ThisLine :: "string list" and c cs
  assume "counter < length ThisLine"
  then show "((Suc counter, take counter ThisLine), counter, ThisLine)
               \<in> measure (\<lambda>(counter, ThisLine). length ThisLine - counter)"
    by simp
next
  fix counter :: nat and ThisLine :: "string list" and c cs
  assume lt: "counter < length ThisLine" and it: "ThisLine ! counter = c # cs"
  have "c # cs \<in> set ThisLine" using lt it by (metis nth_mem)
  then have "length (remove1 (c # cs) ThisLine) = length ThisLine - 1"
    by (simp add: length_remove1)
  then show "((Suc counter, remove1 (c # cs) ThisLine), counter, ThisLine)
               \<in> measure (\<lambda>(counter, ThisLine). length ThisLine - counter)"
    using lt by simp
next
  fix counter :: nat and ThisLine :: "string list" and c cs
  assume "counter < length ThisLine"
  then show "((Suc counter, ThisLine), counter, ThisLine)
               \<in> measure (\<lambda>(counter, ThisLine). length ThisLine - counter)"
    by simp
qed

declare walk_tokens.simps [simp del]

subsection \<open>The builtins \<^verbatim>\<open>int\<close> and \<^verbatim>\<open>float\<close> on a token\<close>

text \<open>
  \<open>py_int\<close> is \<^verbatim>\<open>int(tok)\<close> for a token without whitespace: an optional sign and one
  or more decimal digits, ValueError otherwise. \<open>py_float\<close> is \<^verbatim>\<open>float(tok)\<close> on the
  decimal literals (digits with an optional point and an optional exponent), read as
  the real number they denote; the spellings of the non-finite floats are outside the
  idealisation. The general theorems below hold for every pair of parsers; these two
  run the parser on concrete files.
\<close>

definition is_digit :: "char \<Rightarrow> bool" where
  "is_digit c \<longleftrightarrow> c \<in> set ''0123456789''"

definition digits_val :: "string \<Rightarrow> nat" where
  "digits_val ds = foldl (\<lambda>n c. 10 * n + (of_char c - 48)) 0 ds"

definition strip_sign :: "string \<Rightarrow> bool \<times> string" where
  "strip_sign s =
     (case s of
        [] \<Rightarrow> (False, [])
      | c # r \<Rightarrow> if c = CHR ''-'' then (True, r)
                 else if c = CHR ''+'' then (False, r) else (False, s))"

definition signed_digits :: "string \<Rightarrow> int option" where
  "signed_digits s =
     (case strip_sign s of
        (neg, ds) \<Rightarrow>
          if ds \<noteq> [] \<and> list_all is_digit ds
          then Some (if neg then - int (digits_val ds) else int (digits_val ds))
          else None)"

definition py_int :: "string \<Rightarrow> exn + int" where
  "py_int s = (case signed_digits s of None \<Rightarrow> Inl ValueError | Some i \<Rightarrow> Inr i)"

definition scale10 :: "real \<Rightarrow> int \<Rightarrow> real" where
  "scale10 m k = (if 0 \<le> k then m * 10 ^ nat k else m / 10 ^ nat (- k))"

definition py_float :: "string \<Rightarrow> exn + real" where
  "py_float s =
     (case strip_sign s of
        (neg, b) \<Rightarrow>
          let ip = takeWhile is_digit b;
              r1 = dropWhile is_digit b;
              fp = (case r1 of [] \<Rightarrow> []
                    | c # r \<Rightarrow> if c = CHR ''.'' then takeWhile is_digit r else []);
              r2 = (case r1 of [] \<Rightarrow> []
                    | c # r \<Rightarrow> if c = CHR ''.'' then dropWhile is_digit r else r1);
              ex = (case r2 of [] \<Rightarrow> Some 0
                    | c # r \<Rightarrow> if c = CHR ''e'' \<or> c = CHR ''E'' then signed_digits r
                               else None)
          in (case ex of
                None \<Rightarrow> Inl ValueError
              | Some e \<Rightarrow>
                  if ip = [] \<and> fp = [] then Inl ValueError
                  else let m = scale10 (real (digits_val (ip @ fp))) (e - int (length fp))
                       in Inr (if neg then - m else m)))"

subsection \<open>Coercion of a token (lines 169--177 and 181--185)\<close>

text \<open>
  \<open>pint\<close> and \<open>pfloat\<close> stand for the builtins \<^verbatim>\<open>int\<close> and \<^verbatim>\<open>float\<close> applied to a
  token. \<^verbatim>\<open>except ValueError\<close> catches ValueError only; another exception leaves
  the nested \<^verbatim>\<open>try\<close> blocks.
\<close>

definition coerce ::
  "(string \<Rightarrow> exn + int) \<Rightarrow> (string \<Rightarrow> exn + real) \<Rightarrow> string \<Rightarrow> exn + pyval" where
  "coerce pint pfloat tok =
     (case pint tok of
        Inr i \<Rightarrow> Inr (IntV i)
      | Inl e \<Rightarrow>
          if e \<noteq> ValueError then Inl e
          else (case pfloat tok of
                  Inr f \<Rightarrow> Inr (FloatV f)
                | Inl e' \<Rightarrow> if e' \<noteq> ValueError then Inl e' else Inr (StrV tok)))"

fun coerce_all ::
  "(string \<Rightarrow> exn + int) \<Rightarrow> (string \<Rightarrow> exn + real) \<Rightarrow> string list \<Rightarrow> exn + pyval list" where
  "coerce_all pint pfloat [] = Inr []"
| "coerce_all pint pfloat (item # items) =
     (case coerce pint pfloat item of
        Inl e \<Rightarrow> Inl e
      | Inr v \<Rightarrow> (case coerce_all pint pfloat items of
                    Inl e \<Rightarrow> Inl e
                  | Inr vs \<Rightarrow> Inr (v # vs)))"

subsection \<open>One line (the inner \<^verbatim>\<open>try\<close> block, lines 156--186)\<close>

text \<open>
  \<open>line_body\<close> gets the tokens of a line with at least three tokens.
  \<^verbatim>\<open>ThisLine.remove(ThisLine[0])\<close> deletes the first token equal to the name, which
  is the name itself. The result is the table after the line, or the exception that
  leaves the block. The store \<^verbatim>\<open>ConfigData[ParamName] = ThisParam\<close> of line 175 raises
  nothing, so its handler (lines 176--177) has no branch here.
\<close>

definition line_body ::
  "(string \<Rightarrow> exn + int) \<Rightarrow> (string \<Rightarrow> exn + real) \<Rightarrow> config \<Rightarrow> string list \<Rightarrow> exn + config"
  where
  "line_body pint pfloat ConfigData ThisLine =
     (case ThisLine of
        [] \<Rightarrow> Inl IndexError
      | ParamName # _ \<Rightarrow>
          (case walk_tokens 0 (remove1 ParamName ThisLine) of
             Inl e \<Rightarrow> Inl e
           | Inr [] \<Rightarrow> Inr ConfigData
           | Inr [ThisParam] \<Rightarrow>
               (case coerce pint pfloat ThisParam of
                  Inl e \<Rightarrow> Inl e
                | Inr v \<Rightarrow> Inr (ConfigData(ParamName \<mapsto> v)))
           | Inr items \<Rightarrow>
               (case coerce_all pint pfloat items of
                  Inl e \<Rightarrow> Inl e
                | Inr vs \<Rightarrow> Inr (ConfigData(ParamName \<mapsto> ListV vs)))))"

subsection \<open>The loop over the lines (lines 147--193)\<close>

text \<open>
  The result is the list of printed messages, the success flag and the table.
  \<^verbatim>\<open>list(ThisLine[0])[0]\<close> and whatever leaves the inner \<^verbatim>\<open>try\<close> with a class other
  than IOError and ValueError reach \<^verbatim>\<open>except Exception\<close>, which prints and returns
  \<^verbatim>\<open>False\<close> with the table built so far.
\<close>

fun read_lines ::
  "(string \<Rightarrow> exn + int) \<Rightarrow> (string \<Rightarrow> exn + real) \<Rightarrow> string \<Rightarrow> config \<Rightarrow> string list
     \<Rightarrow> msg list \<times> bool \<times> config" where
  "read_lines pint pfloat filename ConfigData [] = ([], True, ConfigData)"
| "read_lines pint pfloat filename ConfigData (line # lines) =
     (let ThisLine = py_split (py_strip line) in
      if length ThisLine < 3 then read_lines pint pfloat filename ConfigData lines
      else (case hd ThisLine of
              [] \<Rightarrow> ([ConfigReadError filename IndexError], False, ConfigData)
            | c # cs \<Rightarrow>
                if c = CHR ''#'' \<or> c # cs = [CHR 0x0A]
                then read_lines pint pfloat filename ConfigData lines
                else (case line_body pint pfloat ConfigData ThisLine of
                        Inr ConfigData' \<Rightarrow> read_lines pint pfloat filename ConfigData' lines
                      | Inl e \<Rightarrow>
                          if e = IOError \<or> e = ValueError
                          then read_lines pint pfloat filename ConfigData lines
                          else ([ConfigReadError filename e], False, ConfigData))))"

text \<open>\<open>fs\<close> is the file system as \<^verbatim>\<open>open\<close> and \<^verbatim>\<open>readlines\<close> see it: the lines of a
  file, or \<open>None\<close> where they raise IOError.\<close>

definition ReadConfigFile ::
  "(string \<Rightarrow> exn + int) \<Rightarrow> (string \<Rightarrow> exn + real) \<Rightarrow> (string \<Rightarrow> string list option)
     \<Rightarrow> string \<Rightarrow> msg list \<times> bool \<times> config" where
  "ReadConfigFile pint pfloat fs filename =
     (case fs filename of
        None \<Rightarrow> ([ConfigNotFound filename], False, Map.empty)
      | Some lines \<Rightarrow> read_lines pint pfloat filename Map.empty lines)"

section \<open>Python arithmetic on configuration values\<close>

text \<open>
  The values of the table reach \<^verbatim>\<open>CalcDiffStep\<close> and the size check unconverted, so
  the operators act on whatever the parser stored: numbers mix as in Python 2 (an
  integer with a float gives a float, \<^verbatim>\<open>/\<close> on two integers is floor division), an
  integer repeats a string or a list, every other combination raises TypeError, and a
  zero divisor raises ZeroDivisionError.
\<close>

definition bind_exn :: "exn + 'a \<Rightarrow> ('a \<Rightarrow> exn + 'b) \<Rightarrow> exn + 'b" where
  "bind_exn m f = (case m of Inl e \<Rightarrow> Inl e | Inr x \<Rightarrow> f x)"

fun py_mul :: "pyval \<Rightarrow> pyval \<Rightarrow> exn + pyval" where
  "py_mul (IntV a) (IntV b) = Inr (IntV (a * b))"
| "py_mul (IntV a) (FloatV b) = Inr (FloatV (real_of_int a * b))"
| "py_mul (FloatV a) (IntV b) = Inr (FloatV (a * real_of_int b))"
| "py_mul (FloatV a) (FloatV b) = Inr (FloatV (a * b))"
| "py_mul (IntV n) (StrV s) = Inr (StrV (concat (replicate (nat n) s)))"
| "py_mul (StrV s) (IntV n) = Inr (StrV (concat (replicate (nat n) s)))"
| "py_mul (IntV n) (ListV l) = Inr (ListV (concat (replicate (nat n) l)))"
| "py_mul (ListV l) (IntV n) = Inr (ListV (concat (replicate (nat n) l)))"
| "py_mul _ _ = Inl TypeError"

fun py_add :: "pyval \<Rightarrow> pyval \<Rightarrow> exn + pyval" where
  "py_add (IntV a) (IntV b) = Inr (IntV (a + b))"
| "py_add (IntV a) (FloatV b) = Inr (FloatV (real_of_int a + b))"
| "py_add (FloatV a) (IntV b) = Inr (FloatV (a + real_of_int b))"
| "py_add (FloatV a) (FloatV b) = Inr (FloatV (a + b))"
| "py_add (StrV s) (StrV t) = Inr (StrV (s @ t))"
| "py_add (ListV l) (ListV m) = Inr (ListV (l @ m))"
| "py_add _ _ = Inl TypeError"

fun py_sub :: "pyval \<Rightarrow> pyval \<Rightarrow> exn + pyval" where
  "py_sub (IntV a) (IntV b) = Inr (IntV (a - b))"
| "py_sub (IntV a) (FloatV b) = Inr (FloatV (real_of_int a - b))"
| "py_sub (FloatV a) (IntV b) = Inr (FloatV (a - real_of_int b))"
| "py_sub (FloatV a) (FloatV b) = Inr (FloatV (a - b))"
| "py_sub _ _ = Inl TypeError"

fun py_div :: "pyval \<Rightarrow> pyval \<Rightarrow> exn + pyval" where
  "py_div (IntV a) (IntV b) =
     (if b = 0 then Inl ZeroDivisionError else Inr (IntV (a div b)))"
| "py_div (IntV a) (FloatV b) =
     (if b = 0 then Inl ZeroDivisionError else Inr (FloatV (real_of_int a / b)))"
| "py_div (FloatV a) (IntV b) =
     (if b = 0 then Inl ZeroDivisionError else Inr (FloatV (a / real_of_int b)))"
| "py_div (FloatV a) (FloatV b) =
     (if b = 0 then Inl ZeroDivisionError else Inr (FloatV (a / b)))"
| "py_div _ _ = Inl TypeError"

text \<open>\<^verbatim>\<open>v == n\<close> for an integer \<open>n\<close>: a number equal to \<open>n\<close>; a string or a list is not.\<close>

fun py_eq_int :: "pyval \<Rightarrow> int \<Rightarrow> bool" where
  "py_eq_int (IntV a) n \<longleftrightarrow> a = n"
| "py_eq_int (FloatV a) n \<longleftrightarrow> a = real_of_int n"
| "py_eq_int _ n \<longleftrightarrow> False"


text \<open>A numpy float: \<^verbatim>\<open>np.sqrt\<close> of a negative number is \<^verbatim>\<open>nan\<close>, and \<^verbatim>\<open>nan\<close> times a
  number is \<^verbatim>\<open>nan\<close>.\<close>

datatype npfloat = Fin real | NaN

fun np_sqrt :: "pyval \<Rightarrow> exn + npfloat" where
  "np_sqrt (FloatV x) = Inr (if x < 0 then NaN else Fin (sqrt x))"
| "np_sqrt (IntV i) = Inr (if i < 0 then NaN else Fin (sqrt (real_of_int i)))"
| "np_sqrt _ = Inl TypeError"

fun np_times :: "npfloat \<Rightarrow> real \<Rightarrow> npfloat" where
  "np_times (Fin x) y = Fin (x * y)"
| "np_times NaN y = NaN"

section \<open>CalcDiffStep (lines 195--221)\<close>

text \<open>
  The seven detector parameters come from the table; \<open>DiffMult\<close> is the constructor's
  argument, a float. \<^verbatim>\<open>collXmin\<close> and \<^verbatim>\<open>collXwidth\<close> are computed before the phases
  are looked at, so their exceptions come first; \<^verbatim>\<open>collYmin\<close> and \<^verbatim>\<open>collYwidth\<close> are
  constants that nothing reads. The argument of \<^verbatim>\<open>np.sqrt\<close> is
  \<^verbatim>\<open>2.0 * 0.026 * CCDTemperature / 298.0 / Vdiff\<close>, evaluated left to right.
\<close>

definition diff_step_formula :: "pyval \<Rightarrow> pyval \<Rightarrow> real \<Rightarrow> exn + npfloat" where
  "diff_step_formula CCDTemperature Vdiff DiffMult =
     bind_exn (py_mul (FloatV (2 * 0.026)) CCDTemperature) (\<lambda>a.
     bind_exn (py_div a (FloatV 298)) (\<lambda>b.
     bind_exn (py_div b Vdiff) (\<lambda>c.
     bind_exn (np_sqrt c) (\<lambda>r.
     Inr (np_times (np_times r 100) DiffMult)))))"

definition CalcDiffStep ::
  "pyval \<Rightarrow> pyval \<Rightarrow> pyval \<Rightarrow> pyval \<Rightarrow> pyval \<Rightarrow> pyval \<Rightarrow> pyval \<Rightarrow> real
     \<Rightarrow> msg list \<times> (exn + npfloat)" where
  "CalcDiffStep CollectingPhases PixelSize ChannelStopWidth Vbb Vparallel_lo Vparallel_hi
       CCDTemperature DiffMult =
     (case bind_exn (py_mul (FloatV 2) PixelSize) (py_div ChannelStopWidth) of
        Inl e \<Rightarrow> ([], Inl e)
      | Inr collXmin \<Rightarrow>
     (case bind_exn (py_sub PixelSize ChannelStopWidth) (\<lambda>d. py_div d PixelSize) of
        Inl e \<Rightarrow> ([], Inl e)
      | Inr collXwidth \<Rightarrow>
          if py_eq_int CollectingPhases 1 then
            ([], bind_exn (py_mul (FloatV 2) Vparallel_lo) (\<lambda>a.
                 bind_exn (py_add a Vparallel_hi) (\<lambda>b.
                 bind_exn (py_div b (FloatV 3)) (\<lambda>c.
                 bind_exn (py_sub c Vbb) (\<lambda>Vdiff.
                 diff_step_formula CCDTemperature Vdiff DiffMult)))))
          else if py_eq_int CollectingPhases 2 then
            ([], bind_exn (py_mul (FloatV 2) Vparallel_hi) (\<lambda>a.
                 bind_exn (py_add Vparallel_lo a) (\<lambda>b.
                 bind_exn (py_div b (FloatV 3)) (\<lambda>c.
                 bind_exn (py_sub c Vbb) (\<lambda>Vdiff.
                 diff_step_formula CCDTemperature Vdiff DiffMult)))))
          else ([DiffusionOff], Inr (Fin 0))))"

section \<open>SiliconSensor\<close>

subsection \<open>The object and what surrounds it\<close>

text \<open>
  \<open>rng_arg\<close> is the \<^verbatim>\<open>rng\<close> argument: \<^verbatim>\<open>None\<close>, an instance of \<^verbatim>\<open>BaseDeviate\<close>, or
  anything else. \<open>uniform\<close> is the generator the sensor keeps:
  \<^verbatim>\<open>galsim.UniformDeviate()\<close> or \<^verbatim>\<open>galsim.UniformDeviate(rng)\<close>.
\<close>

datatype 'r rng_arg = RngNone | RngDeviate 'r | RngOther

datatype 'r uniform = UniformDefault | UniformFrom 'r

record ('r, 'e) sensor =
  photon_file :: "string option"
  rng :: "'r uniform"
  silicon :: 'e

text \<open>The arguments of \<^verbatim>\<open>galsim._galsim.Silicon\<close>, in the order of line 116.\<close>

record silicon_args =
  arg_NumVertices :: pyval
  arg_NumElec :: int
  arg_Nx :: pyval
  arg_Ny :: pyval
  arg_QDist :: int
  arg_Nrecalc :: int
  arg_DiffStep :: npfloat
  arg_PixelSize :: pyval
  arg_vertex_data :: "real list"

text \<open>A computation that prints and may raise: what was printed stays printed when an
  exception ends the computation.\<close>

definition bind_io ::
  "msg list \<times> (exn + 'a) \<Rightarrow> ('a \<Rightarrow> msg list \<times> (exn + 'b)) \<Rightarrow> msg list \<times> (exn + 'b)" where
  "bind_io m f =
     (case m of
        (out, Inl e) \<Rightarrow> (out, Inl e)
      | (out, Inr x) \<Rightarrow> (case f x of (out', r) \<Rightarrow> (out @ out', r)))"

definition lookup :: "config \<Rightarrow> string \<Rightarrow> msg list \<times> (exn + pyval)" where
  "lookup ConfigData key =
     (case ConfigData key of None \<Rightarrow> ([], Inl KeyError) | Some v \<Rightarrow> ([], Inr v))"

text \<open>\<^verbatim>\<open>5 * Nx * Ny * (4 * NumVertices + 4)\<close>, the left factor first.\<close>

definition expected_size :: "pyval \<Rightarrow> pyval \<Rightarrow> pyval \<Rightarrow> exn + pyval" where
  "expected_size Nx Ny NumVertices =
     bind_exn (py_mul (IntV 5) Nx) (\<lambda>a.
     bind_exn (py_mul a Ny) (\<lambda>b.
     bind_exn (py_mul (IntV 4) NumVertices) (\<lambda>c.
     bind_exn (py_add c (IntV 4)) (\<lambda>d.
     py_mul b d))))"

subsection \<open>The constructor (lines 84--118)\<close>

text \<open>
  \<open>Silicon\<close> is the constructor of the engine, \<open>fs\<close> the files \<^verbatim>\<open>open\<close> reads and
  \<open>loadtxt\<close> what \<^verbatim>\<open>np.loadtxt(vertex_file, skiprows = 1)\<close> returns: the values of the
  file, or the exception it raises. An IOError of \<^verbatim>\<open>np.loadtxt\<close> is caught and
  reported; \<^verbatim>\<open>vertex_data\<close> is then unbound, and reading it on line 115 raises
  UnboundLocalError before the right-hand side of the comparison is evaluated.
  The result is the finished object, or the exception that leaves the constructor.
\<close>

definition SiliconSensor_init ::
  "(string \<Rightarrow> exn + int) \<Rightarrow> (string \<Rightarrow> exn + real) \<Rightarrow> (silicon_args \<Rightarrow> exn + 'e)
     \<Rightarrow> (string \<Rightarrow> string list option) \<Rightarrow> (string \<Rightarrow> exn + real list)
     \<Rightarrow> string \<Rightarrow> string \<Rightarrow> int \<Rightarrow> 'r rng_arg \<Rightarrow> real \<Rightarrow> int \<Rightarrow> int
     \<Rightarrow> msg list \<times> (exn + ('r, 'e) sensor)" where
  "SiliconSensor_init pint pfloat Silicon fs loadtxt
       config_file vertex_file NumElec rng_in DiffMult QDist Nrecalc =
     bind_io (case rng_in of
                RngNone \<Rightarrow> ([], Inr UniformDefault)
              | RngOther \<Rightarrow> ([], Inl TypeError)
              | RngDeviate r \<Rightarrow> ([], Inr (UniformFrom r))) (\<lambda>self_rng.
     (case ReadConfigFile pint pfloat fs config_file of
        (out, cfg_success, ConfigData) \<Rightarrow>
          bind_io (out, if cfg_success then Inr ConfigData else Inl IOError) (\<lambda>ConfigData.
          bind_io (lookup ConfigData ''CollectingPhases'') (\<lambda>CollectingPhases.
          bind_io (lookup ConfigData ''PixelSize'') (\<lambda>PixelSize0.
          bind_io (lookup ConfigData ''ChannelStopWidth'') (\<lambda>ChannelStopWidth.
          bind_io (lookup ConfigData ''Vbb'') (\<lambda>Vbb.
          bind_io (lookup ConfigData ''Vparallel_lo'') (\<lambda>Vparallel_lo.
          bind_io (lookup ConfigData ''Vparallel_hi'') (\<lambda>Vparallel_hi.
          bind_io (lookup ConfigData ''CCDTemperature'') (\<lambda>CCDTemperature.
          bind_io (CalcDiffStep CollectingPhases PixelSize0 ChannelStopWidth Vbb
                     Vparallel_lo Vparallel_hi CCDTemperature DiffMult) (\<lambda>DiffStep.
          bind_io (lookup ConfigData ''NumVertices'') (\<lambda>NumVertices.
          bind_io (lookup ConfigData ''PixelBoundaryNx'') (\<lambda>Nx.
          bind_io (lookup ConfigData ''PixelBoundaryNy'') (\<lambda>Ny.
          bind_io (lookup ConfigData ''PixelSize'') (\<lambda>PixelSize.
          bind_io (case loadtxt vertex_file of
                     Inr vertex_data \<Rightarrow> ([], Inr vertex_data)
                   | Inl e \<Rightarrow> if e = IOError
                              then ([VertexNotFound vertex_file], Inl UnboundLocalError)
                              else ([], Inl e)) (\<lambda>vertex_data.
          bind_io ([], expected_size Nx Ny NumVertices) (\<lambda>expected.
          if py_eq_int expected (int (length vertex_data))
          then bind_io ([], Silicon \<lparr>arg_NumVertices = NumVertices, arg_NumElec = NumElec,
                                     arg_Nx = Nx, arg_Ny = Ny, arg_QDist = QDist,
                                     arg_Nrecalc = Nrecalc, arg_DiffStep = DiffStep,
                                     arg_PixelSize = PixelSize,
                                     arg_vertex_data = vertex_data\<rparr>) (\<lambda>engine.
               ([], Inr \<lparr>photon_file = None, rng = self_rng, silicon = engine\<rparr>))
          else ([], Inl IOError))))))))))))))))))"

subsection \<open>WritePhotonFile (lines 223--243) and accumulate (lines 121--132)\<close>

text \<open>
  A batch of photons: the photons in order, and whether the batch has wavelengths and
  angles. A photon log is the list of its records after the header line; \<open>writable\<close>
  says whether \<^verbatim>\<open>open(path, 'w')\<close> succeeds, and \<open>files\<close> holds the logs written so far.
\<close>

record photon =
  getX :: real
  getY :: real
  getDXDZ :: real
  getDYDZ :: real
  getWavelength :: real

record photon_array =
  photon_list :: "photon list"
  hasAllocatedWavelengths :: bool
  hasAllocatedAngles :: bool

type_synonym photon_row = "nat \<times> real \<times> real \<times> real \<times> real \<times> real"

definition photon_row_of :: "photon_array \<Rightarrow> nat \<times> photon \<Rightarrow> photon_row" where
  "photon_row_of photons ip =
     (case ip of (i, p) \<Rightarrow>
        (i, getX p, getY p,
         if hasAllocatedAngles photons then getDXDZ p else 0,
         if hasAllocatedAngles photons then getDYDZ p else 0,
         if hasAllocatedWavelengths photons then getWavelength p else 0))"

definition WritePhotonFile ::
  "(string \<Rightarrow> bool) \<Rightarrow> string \<Rightarrow> photon_array \<Rightarrow> (string \<rightharpoonup> photon_row list)
     \<Rightarrow> (string \<rightharpoonup> photon_row list) \<times> (exn + unit)" where
  "WritePhotonFile writable path photons files =
     (if writable path
      then (files(path \<mapsto> map (photon_row_of photons) (enumerate 0 (photon_list photons))),
            Inr ())
      else (files, Inl IOError))"

text \<open>
  \<open>engine_accumulate\<close> is \<^verbatim>\<open>self._silicon.accumulate(photons, self.rng, image.image)\<close>:
  it returns its value and leaves the engine, the generator and the image changed, or
  raises. The files written stay written whatever the outcome.
\<close>

definition accumulate ::
  "('e \<Rightarrow> photon_array \<Rightarrow> 'r uniform \<Rightarrow> 'i \<Rightarrow> exn + ('v \<times> 'e \<times> 'r uniform \<times> 'i))
     \<Rightarrow> (string \<Rightarrow> bool) \<Rightarrow> ('r, 'e) sensor \<Rightarrow> photon_array \<Rightarrow> 'i
     \<Rightarrow> (string \<rightharpoonup> photon_row list)
     \<Rightarrow> (string \<rightharpoonup> photon_row list) \<times> (exn + ('v \<times> ('r, 'e) sensor \<times> 'i))" where
  "accumulate engine_accumulate writable self photons img files =
     (case (case photon_file self of
              None \<Rightarrow> (files, Inr ())
            | Some path \<Rightarrow> WritePhotonFile writable path photons files) of
        (files', Inl e) \<Rightarrow> (files', Inl e)
      | (files', Inr u) \<Rightarrow>
          (case engine_accumulate (silicon self) photons (rng self) img of
             Inl e \<Rightarrow> (files', Inl e)
           | Inr (v, engine', rng', img') \<Rightarrow>
               (files', Inr (v, self\<lparr>rng := rng', silicon := engine'\<rparr>, img'))))"

text \<open>A run of \<^verbatim>\<open>accumulate\<close> calls on one sensor and one image, one batch per call,
  up to the first call that raises.\<close>

fun accumulate_calls ::
  "('e \<Rightarrow> photon_array \<Rightarrow> 'r uniform \<Rightarrow> 'i \<Rightarrow> exn + ('v \<times> 'e \<times> 'r uniform \<times> 'i))
     \<Rightarrow> (string \<Rightarrow> bool) \<Rightarrow> ('r, 'e) sensor \<Rightarrow> 'i \<Rightarrow> (string \<rightharpoonup> photon_row list)
     \<Rightarrow> photon_array list
     \<Rightarrow> (string \<rightharpoonup> photon_row list) \<times> ('r, 'e) sensor" where
  "accumulate_calls engine_accumulate writable self img files [] = (files, self)"
| "accumulate_calls engine_accumulate writable self img files (photons # batches) =
     (case accumulate engine_accumulate writable self photons img files of
        (files', Inl e) \<Rightarrow> (files', self)
      | (files', Inr (v, self', img')) \<Rightarrow>
          accumulate_calls engine_accumulate writable self' img' files' batches)"

section \<open>Sample inputs\<close>

text \<open>A file system holding one file, and a configuration file in the format of the
  Poisson simulator, with the table \<^verbatim>\<open>ReadConfigFile\<close> builds from it.\<close>

definition one_file :: "string \<Rightarrow> string list \<Rightarrow> string \<Rightarrow> string list option" where
  "one_file name lines = (\<lambda>f. if f = name then Some lines else None)"

definition sample_config :: "string list" where
  "sample_config =
     [''# Poisson CCD simulator settings'',
      ''VerboseLevel = 1  # 0 - minimal, 1 - normal'',
      '''',
      ''CollectingPhases = 1'',
      ''PixelSize = 10.0'',
      ''ChannelStopWidth = 2.0'',
      ''Vbb = -40.0 # back bias'',
      ''Vparallel_lo = -8.0'',
      ''Vparallel_hi = 4.0'',
      ''CCDTemperature = 173.0'',
      ''NumVertices = 1'',
      ''PixelBoundaryNx = 1'',
      ''PixelBoundaryNy = 1'',
      ''PixelBoundaryLowerLeft = 10.0 10.0'',
      ''outputfiledir = data'']"

definition sample_table :: config where
  "sample_table =
     [''VerboseLevel'' \<mapsto> IntV 1,
      ''CollectingPhases'' \<mapsto> IntV 1,
      ''PixelSize'' \<mapsto> FloatV 10,
      ''ChannelStopWidth'' \<mapsto> FloatV 2,
      ''Vbb'' \<mapsto> FloatV (- 40),
      ''Vparallel_lo'' \<mapsto> FloatV (- 8),
      ''Vparallel_hi'' \<mapsto> FloatV 4,
      ''CCDTemperature'' \<mapsto> FloatV 173,
      ''NumVertices'' \<mapsto> IntV 1,
      ''PixelBoundaryNx'' \<mapsto> IntV 1,
      ''PixelBoundaryNy'' \<mapsto> IntV 1,
      ''PixelBoundaryLowerLeft'' \<mapsto> ListV [FloatV 10, FloatV 10],
      ''outputfiledir'' \<mapsto> StrV ''data'']"

text \<open>A vertex file of forty values, the size the sample configuration asks for
  (\<open>5 * 1 * 1 * (4 * 1 + 4)\<close>); no other file can be loaded.\<close>

definition sample_loadtxt :: "string \<Rightarrow> exn + real list" where
  "sample_loadtxt = (\<lambda>f. if f = ''vertex.dat'' then Inr (replicate 40 0) else Inl IOError)"

text \<open>The sensor the constructor builds from the sample files, with the engine's
  constructor returning its arguments as the engine; and an engine that counts the
  photons of a batch into the image.\<close>

definition sample_sensor :: "(unit, silicon_args) sensor" where
  "sample_sensor =
     \<lparr>photon_file = None, rng = UniformDefault,
      silicon = \<lparr>arg_NumVertices = IntV 1, arg_NumElec = 80000, arg_Nx = IntV 1,
                 arg_Ny = IntV 1, arg_QDist = 3, arg_Nrecalc = 10000,
                 arg_DiffStep = Fin (100 * sqrt (2 * 0.026 * 173 / 298 / 36)),
                 arg_PixelSize = FloatV 10, arg_vertex_data = replicate 40 0\<rparr>\<rparr>"

definition sample_engine ::
  "silicon_args \<Rightarrow> photon_array \<Rightarrow> unit uniform \<Rightarrow> nat
     \<Rightarrow> exn + (unit \<times> silicon_args \<times> unit uniform \<times> nat)" where
  "sample_engine engine photons r img =
     Inr ((), engine, r, img + length (photon_list photons))"


section \<open>Properties of ReadConfigFile\<close>

subsection \<open>Tokens, the walk and the exceptions of a line\<close>











subsection \<open>Running the parser\<close>

lemmas parse_simps =
  walk_tokens.simps py_split_def py_strip_def is_space_def line_body_def coerce_def
  py_int_def py_float_def strip_sign_def signed_digits_def is_digit_def digits_val_def
  scale10_def

lemma read_sample_config:
  "ReadConfigFile py_int py_float (one_file ''sensor.cfg'' sample_config) ''sensor.cfg''
     = ([], True, sample_table)"
  by (simp add: ReadConfigFile_def one_file_def sample_config_def sample_table_def parse_simps)



text \<open>
  Claim C1, on the code: after \<^verbatim>\<open>ThisLine.remove('=')\<close> the loop's index has moved past
  the token that took the place of \<^verbatim>\<open>=\<close>, so that token is never examined. A comment
  that follows \<^verbatim>\<open>=\<close> directly is stored as a value, with all that follows it; of two
  \<^verbatim>\<open>=\<close> in a row the second is stored.
\<close>

theorem C1_unexamined_token_is_stored:
  "snd (snd (ReadConfigFile py_int py_float (one_file ''sensor.cfg'' [''Vbb = # volts''])
               ''sensor.cfg'')) ''Vbb''
     = Some (ListV [StrV ''#'', StrV ''volts''])
   \<and> snd (snd (ReadConfigFile py_int py_float (one_file ''sensor.cfg'' [''Vbb = = -40.0''])
               ''sensor.cfg'')) ''Vbb''
     = Some (ListV [StrV ''='', FloatV (- 40)])"
  by (simp add: ReadConfigFile_def one_file_def parse_simps)

subsection \<open>Exceptions inside a line\<close>



subsection \<open>Coercion and the stored values\<close>








section \<open>Properties of the constructor and of accumulate\<close>

lemma bind_io_InrE:
  assumes "bind_io m f = (out, Inr x)"
  obtains o1 y o2 where "m = (o1, Inr y)" and "f y = (o2, Inr x)" and "out = o1 @ o2"
  using assms unfolding bind_io_def by (auto split: prod.splits sum.splits)

lemma lookup_InrE:
  assumes "lookup cfg k = (out, Inr v)"
  obtains "cfg k = Some v" and "out = []"
  using assms unfolding lookup_def by (auto split: option.splits)

lemma init_success:
  assumes "SiliconSensor_init pint pfloat Silicon fs loadtxt
             config_file vertex_file NumElec rng_in DiffMult QDist Nrecalc = (out, Inr s)"
  shows "\<exists>out1 cfg cp ps csw vbb lo hi T out2 ds nv nx ny data ex engine.
           ReadConfigFile pint pfloat fs config_file = (out1, True, cfg)
         \<and> rng_in \<noteq> RngOther
         \<and> cfg ''CollectingPhases'' = Some cp \<and> cfg ''PixelSize'' = Some ps
         \<and> cfg ''ChannelStopWidth'' = Some csw \<and> cfg ''Vbb'' = Some vbb
         \<and> cfg ''Vparallel_lo'' = Some lo \<and> cfg ''Vparallel_hi'' = Some hi
         \<and> cfg ''CCDTemperature'' = Some T
         \<and> CalcDiffStep cp ps csw vbb lo hi T DiffMult = (out2, Inr ds)
         \<and> cfg ''NumVertices'' = Some nv \<and> cfg ''PixelBoundaryNx'' = Some nx
         \<and> cfg ''PixelBoundaryNy'' = Some ny
         \<and> loadtxt vertex_file = Inr data
         \<and> expected_size nx ny nv = Inr ex
         \<and> py_eq_int ex (int (length data))
         \<and> Silicon \<lparr>arg_NumVertices = nv, arg_NumElec = NumElec, arg_Nx = nx, arg_Ny = ny,
                     arg_QDist = QDist, arg_Nrecalc = Nrecalc, arg_DiffStep = ds,
                     arg_PixelSize = ps, arg_vertex_data = data\<rparr> = Inr engine
         \<and> s = \<lparr>photon_file = None,
                 rng = (case rng_in of RngDeviate r \<Rightarrow> UniformFrom r | _ \<Rightarrow> UniformDefault),
                 silicon = engine\<rparr>
         \<and> out = out1 @ out2"
proof -
  obtain out1 ok cfg where rc: "ReadConfigFile pint pfloat fs config_file = (out1, ok, cfg)"
    by (metis prod_cases3)
  from assms show ?thesis
    unfolding SiliconSensor_init_def rc prod.case
    apply (elim bind_io_InrE)
    apply (simp split: if_splits)
    apply (elim bind_io_InrE lookup_InrE)
    apply (auto split: rng_arg.splits sum.splits if_splits)
    done
qed


lemma sample_diff_step:
  "CalcDiffStep (IntV 1) (FloatV 10) (FloatV 2) (FloatV (- 40)) (FloatV (- 8)) (FloatV 4)
       (FloatV 173) 1
     = ([], Inr (Fin (100 * sqrt (2 * 0.026 * 173 / 298 / 36))))"
  by (simp add: CalcDiffStep_def bind_exn_def diff_step_formula_def)

lemma sample_lookups:
  "sample_table ''CollectingPhases'' = Some (IntV 1)"
  "sample_table ''PixelSize'' = Some (FloatV 10)"
  "sample_table ''ChannelStopWidth'' = Some (FloatV 2)"
  "sample_table ''Vbb'' = Some (FloatV (- 40))"
  "sample_table ''Vparallel_lo'' = Some (FloatV (- 8))"
  "sample_table ''Vparallel_hi'' = Some (FloatV 4)"
  "sample_table ''CCDTemperature'' = Some (FloatV 173)"
  "sample_table ''NumVertices'' = Some (IntV 1)"
  "sample_table ''PixelBoundaryNx'' = Some (IntV 1)"
  "sample_table ''PixelBoundaryNy'' = Some (IntV 1)"
  by (simp_all add: sample_table_def)

lemma sample_sensor_built:
  "SiliconSensor_init py_int py_float Inr (one_file ''sensor.cfg'' sample_config)
       sample_loadtxt ''sensor.cfg'' ''vertex.dat'' 80000 RngNone 1 3 10000
     = ([], Inr sample_sensor)"
  unfolding SiliconSensor_init_def read_sample_config prod.case
  by (simp add: bind_io_def lookup_def sample_lookups sample_diff_step sample_loadtxt_def
        expected_size_def bind_exn_def sample_sensor_def)

text \<open>
  Claim C7. When the configuration file cannot be opened, \<^verbatim>\<open>ReadConfigFile\<close> reports
  it and returns \<^verbatim>\<open>False\<close> with an empty table; the constructor, once past its check
  of \<^verbatim>\<open>rng\<close>, raises IOError; and whatever \<^verbatim>\<open>rng\<close> is, the constructor raises and
  returns no sensor.
\<close>

theorem C7_unopened_config_is_fatal:
  assumes "fs config_file = None"
  shows "ReadConfigFile pint pfloat fs config_file
           = ([ConfigNotFound config_file], False, Map.empty)
       \<and> (rng_in \<noteq> RngOther \<longrightarrow>
            SiliconSensor_init pint pfloat Silicon fs loadtxt
                config_file vertex_file NumElec rng_in DiffMult QDist Nrecalc
              = ([ConfigNotFound config_file], Inl IOError))
       \<and> (\<exists>out e. SiliconSensor_init pint pfloat Silicon fs loadtxt
                config_file vertex_file NumElec rng_in DiffMult QDist Nrecalc
              = (out, Inl e))"
proof -
  have rc: "ReadConfigFile pint pfloat fs config_file
           = ([ConfigNotFound config_file], False, Map.empty)"
    using assms by (simp add: ReadConfigFile_def)
  have a: "rng_in \<noteq> RngOther \<Longrightarrow>
            SiliconSensor_init pint pfloat Silicon fs loadtxt
                config_file vertex_file NumElec rng_in DiffMult QDist Nrecalc
              = ([ConfigNotFound config_file], Inl IOError)"
    unfolding SiliconSensor_init_def rc prod.case
    by (cases rng_in) (simp_all add: bind_io_def)
  have b: "rng_in = RngOther \<Longrightarrow>
            SiliconSensor_init pint pfloat Silicon fs loadtxt
                config_file vertex_file NumElec rng_in DiffMult QDist Nrecalc
              = ([], Inl TypeError)"
    unfolding SiliconSensor_init_def by (simp add: bind_io_def)
  show ?thesis using rc a b by (cases "rng_in = RngOther") auto
qed

theorem C7_unopened_config_is_fatal_witness:
  "one_file ''sensor.cfg'' sample_config ''missing.cfg'' = None
   \<and> ReadConfigFile py_int py_float (one_file ''sensor.cfg'' sample_config) ''missing.cfg''
       = ([ConfigNotFound ''missing.cfg''], False, Map.empty)
   \<and> SiliconSensor_init py_int py_float (Inr :: silicon_args \<Rightarrow> exn + silicon_args)
         (one_file ''sensor.cfg'' sample_config) sample_loadtxt
         ''missing.cfg'' ''vertex.dat'' 80000 (RngNone :: unit rng_arg) 1 3 10000
       = ([ConfigNotFound ''missing.cfg''], Inl IOError)"
proof -
  have h: "one_file ''sensor.cfg'' sample_config ''missing.cfg'' = None"
    by (simp add: one_file_def)
  show ?thesis
    using h C7_unopened_config_is_fatal[of "one_file ''sensor.cfg'' sample_config" "''missing.cfg''" py_int py_float
               "RngNone :: unit rng_arg" "Inr :: silicon_args \<Rightarrow> exn + silicon_args"
               sample_loadtxt "''vertex.dat''" 80000 1 3 10000, OF h]
    by simp
qed

text \<open>
  Claim C6. When \<^verbatim>\<open>np.loadtxt\<close> raises on the vertex file, the constructor raises:
  its result is an exception, never a sensor. (An IOError is caught and reported, and
  the read of the unbound \<^verbatim>\<open>vertex_data\<close> then raises UnboundLocalError, as
  \<open>sample_vertex_missing\<close> shows; any other exception leaves the constructor as it is.)
\<close>

theorem C6_unread_vertex_file_is_fatal:
  assumes "loadtxt vertex_file = Inl e"
  shows "\<exists>out e'. SiliconSensor_init pint pfloat Silicon fs loadtxt
                config_file vertex_file NumElec rng_in DiffMult QDist Nrecalc
              = (out, Inl e')"
proof -
  obtain out r where eq: "SiliconSensor_init pint pfloat Silicon fs loadtxt
                config_file vertex_file NumElec rng_in DiffMult QDist Nrecalc = (out, r)"
    by (cases "SiliconSensor_init pint pfloat Silicon fs loadtxt
                config_file vertex_file NumElec rng_in DiffMult QDist Nrecalc") auto
  show ?thesis
  proof (cases r)
    case (Inl e')
    then show ?thesis using eq by blast
  next
    case (Inr s)
    then have "\<exists>data. loadtxt vertex_file = Inr data"
      using init_success[of pint pfloat Silicon fs loadtxt config_file vertex_file NumElec
                            rng_in DiffMult QDist Nrecalc out s] eq
      by blast
    then show ?thesis using assms by simp
  qed
qed

lemma sample_vertex_missing:
  "SiliconSensor_init py_int py_float (Inr :: silicon_args \<Rightarrow> exn + silicon_args)
         (one_file ''sensor.cfg'' sample_config) sample_loadtxt
         ''sensor.cfg'' ''missing.dat'' 80000 (RngNone :: unit rng_arg) 1 3 10000
     = ([VertexNotFound ''missing.dat''], Inl UnboundLocalError)"
  unfolding SiliconSensor_init_def read_sample_config prod.case
  by (simp add: bind_io_def lookup_def sample_lookups sample_diff_step sample_loadtxt_def)

theorem C6_unread_vertex_file_is_fatal_witness:
  "sample_loadtxt ''missing.dat'' = Inl IOError
   \<and> (\<exists>out e'. SiliconSensor_init py_int py_float (Inr :: silicon_args \<Rightarrow> exn + silicon_args)
         (one_file ''sensor.cfg'' sample_config) sample_loadtxt
         ''sensor.cfg'' ''missing.dat'' 80000 (RngNone :: unit rng_arg) 1 3 10000
       = (out, Inl e'))"
proof -
  have h: "sample_loadtxt ''missing.dat'' = Inl IOError"
    by (simp add: sample_loadtxt_def)
  show ?thesis
    using h C6_unread_vertex_file_is_fatal[of sample_loadtxt "''missing.dat''" IOError py_int py_float
               "Inr :: silicon_args \<Rightarrow> exn + silicon_args"
               "one_file ''sensor.cfg'' sample_config" "''sensor.cfg''" 80000
               "RngNone :: unit rng_arg" 1 3 10000, OF h]
    by simp
qed


text \<open>
  Claim C5. When the constructor has reached the size check with integer
  \<^verbatim>\<open>NumVertices\<close>, \<^verbatim>\<open>PixelBoundaryNx\<close> and \<^verbatim>\<open>PixelBoundaryNy\<close> and a loaded dataset, a
  dataset of exactly \<open>5 * Nx * Ny * (4 * NumVertices + 4)\<close> values is handed whole to
  the engine's constructor, whose result the sensor holds; with any other number of
  values the constructor raises IOError.
\<close>

theorem C5_vertex_size_check:
  assumes rc: "ReadConfigFile pint pfloat fs config_file = (out1, True, cfg)"
      and rng: "rng_in \<noteq> RngOther"
      and keys: "cfg ''CollectingPhases'' = Some cp" "cfg ''PixelSize'' = Some ps"
                "cfg ''ChannelStopWidth'' = Some csw" "cfg ''Vbb'' = Some vbb"
                "cfg ''Vparallel_lo'' = Some lo" "cfg ''Vparallel_hi'' = Some hi"
                "cfg ''CCDTemperature'' = Some T"
      and ds: "CalcDiffStep cp ps csw vbb lo hi T DiffMult = (out2, Inr ds)"
      and dims: "cfg ''NumVertices'' = Some (IntV NumVertices)"
                "cfg ''PixelBoundaryNx'' = Some (IntV Nx)"
                "cfg ''PixelBoundaryNy'' = Some (IntV Ny)"
      and ld: "loadtxt vertex_file = Inr vertex_data"
  shows "SiliconSensor_init pint pfloat Silicon fs loadtxt
             config_file vertex_file NumElec rng_in DiffMult QDist Nrecalc
           = (out1 @ out2,
              if int (length vertex_data) = 5 * Nx * Ny * (4 * NumVertices + 4)
              then (case Silicon \<lparr>arg_NumVertices = IntV NumVertices, arg_NumElec = NumElec,
                                  arg_Nx = IntV Nx, arg_Ny = IntV Ny, arg_QDist = QDist,
                                  arg_Nrecalc = Nrecalc, arg_DiffStep = ds,
                                  arg_PixelSize = ps, arg_vertex_data = vertex_data\<rparr> of
                      Inl e \<Rightarrow> Inl e
                    | Inr engine \<Rightarrow>
                        Inr \<lparr>photon_file = None,
                             rng = (case rng_in of RngDeviate r \<Rightarrow> UniformFrom r
                                    | _ \<Rightarrow> UniformDefault),
                             silicon = engine\<rparr>)
              else Inl IOError)"
  unfolding SiliconSensor_init_def rc prod.case
  using rng
  by (cases rng_in)
     (auto simp: bind_io_def lookup_def keys ds dims ld expected_size_def bind_exn_def
           split: sum.splits)

theorem C5_vertex_size_check_witness:
  "SiliconSensor_init py_int py_float (Inr :: silicon_args \<Rightarrow> exn + silicon_args)
       (one_file ''sensor.cfg'' sample_config)
       (\<lambda>f. Inr (replicate 40 0)) ''sensor.cfg'' ''vertex.dat'' 80000
       (RngNone :: unit rng_arg) 1 3 10000
     = ([], Inr sample_sensor)
   \<and> SiliconSensor_init py_int py_float (Inr :: silicon_args \<Rightarrow> exn + silicon_args)
       (one_file ''sensor.cfg'' sample_config)
       (\<lambda>f. Inr (replicate 39 0)) ''sensor.cfg'' ''vertex.dat'' 80000
       (RngNone :: unit rng_arg) 1 3 10000
     = ([], Inl IOError)"
proof -
  have r: "(RngNone :: unit rng_arg) \<noteq> RngOther" by simp
  have l40: "(\<lambda>f::string. Inr (replicate 40 (0::real)) :: exn + real list) ''vertex.dat''
               = Inr (replicate 40 0)" by simp
  have l39: "(\<lambda>f::string. Inr (replicate 39 (0::real)) :: exn + real list) ''vertex.dat''
               = Inr (replicate 39 0)" by simp
  note a = C5_vertex_size_check[OF read_sample_config r sample_lookups(1-7) sample_diff_step
              sample_lookups(8-10) l40,
              where Silicon = "Inr :: silicon_args \<Rightarrow> exn + silicon_args"
                and NumElec = 80000 and QDist = 3 and Nrecalc = 10000]
  note b = C5_vertex_size_check[OF read_sample_config r sample_lookups(1-7) sample_diff_step
              sample_lookups(8-10) l39,
              where Silicon = "Inr :: silicon_args \<Rightarrow> exn + silicon_args"
                and NumElec = 80000 and QDist = 3 and Nrecalc = 10000]
  show ?thesis using a b by (simp add: sample_sensor_def)
qed

lemma accumulate_without_log:
  assumes "photon_file s = None"
  shows "accumulate engine_accumulate writable s photons img files
           = (files,
              case engine_accumulate (silicon s) photons (rng s) img of
                Inl e \<Rightarrow> Inl e
              | Inr (v, engine', rng', img') \<Rightarrow>
                  Inr (v, s\<lparr>rng := rng', silicon := engine'\<rparr>, img'))"
  using assms by (auto simp: accumulate_def split: sum.splits)

lemma accumulate_calls_without_log:
  assumes "photon_file s = None"
  shows "fst (accumulate_calls engine_accumulate writable s img files batches) = files
       \<and> photon_file (snd (accumulate_calls engine_accumulate writable s img files batches))
           = None"
  using assms
proof (induction batches arbitrary: s img)
  case Nil
  then show ?case by simp
next
  case (Cons photons batches)
  show ?case
  proof (cases "engine_accumulate (silicon s) photons (rng s) img")
    case (Inl e)
    then show ?thesis using Cons.prems by (simp add: accumulate_without_log)
  next
    case (Inr res)
    obtain v engine' rng' img' where res: "res = (v, engine', rng', img')"
      by (cases res) auto
    have "photon_file (s\<lparr>rng := rng', silicon := engine'\<rparr>) = None"
      using Cons.prems by simp
    from Cons.IH[OF this, of img'] show ?thesis
      using Cons.prems Inr res by (simp add: accumulate_without_log)
  qed
qed

text \<open>
  Claim C10. A sensor the constructor returns has no photon log path; \<^verbatim>\<open>accumulate\<close>
  on it writes no file and returns what the engine returns; and after any run of
  \<^verbatim>\<open>accumulate\<close> calls the files are as they were and the sensor still has no photon
  log path.
\<close>

theorem C10_no_photon_log_after_construction:
  assumes "SiliconSensor_init pint pfloat Silicon fs loadtxt
             config_file vertex_file NumElec rng_in DiffMult QDist Nrecalc = (out, Inr s)"
  shows "photon_file s = None
       \<and> accumulate engine_accumulate writable s photons img files
           = (files,
              case engine_accumulate (silicon s) photons (rng s) img of
                Inl e \<Rightarrow> Inl e
              | Inr (v, engine', rng', img') \<Rightarrow>
                  Inr (v, s\<lparr>rng := rng', silicon := engine'\<rparr>, img'))
       \<and> (\<forall>batches.
             fst (accumulate_calls engine_accumulate writable s img files batches) = files
           \<and> photon_file (snd (accumulate_calls engine_accumulate writable s img files
                                  batches)) = None)"
proof -
  have pf: "photon_file s = None"
    using init_success[OF assms] by auto
  show ?thesis
    using pf by (simp add: accumulate_without_log[OF pf] accumulate_calls_without_log[OF pf])
qed

theorem C10_no_photon_log_after_construction_witness:
  "photon_file sample_sensor = None
   \<and> accumulate sample_engine (\<lambda>path. True) sample_sensor
        \<lparr>photon_list = [\<lparr>getX = 3, getY = 4, getDXDZ = 0, getDYDZ = 0, getWavelength = 500\<rparr>],
         hasAllocatedWavelengths = True, hasAllocatedAngles = False\<rparr> 0 Map.empty
       = (Map.empty, Inr ((), sample_sensor, 1))"
proof -
  note c = C10_no_photon_log_after_construction[OF sample_sensor_built, where engine_accumulate = sample_engine
       and writable = "\<lambda>path. True" and img = 0 and files = Map.empty and photons =
       "\<lparr>photon_list = [\<lparr>getX = 3, getY = 4, getDXDZ = 0, getDYDZ = 0, getWavelength = 500\<rparr>],
         hasAllocatedWavelengths = True, hasAllocatedAngles = False\<rparr>"]
  show ?thesis using c by (simp add: sample_engine_def sample_sensor_def)
qed

section \<open>Properties of CalcDiffStep\<close>














end
